theory Spec2Isabelle
  imports Complex_Main "HOL-Library.Sublist" "HOL-Library.Extended_Nat" "HOL-Library.Multiset"
begin

section \<open>HearItFresh: the Spotify helpers of \<open>src/app/lib/spotify.ts\<close>\<close>

subsection \<open>Strings\<close>

text \<open>
  A JavaScript string is a sequence of UTF-16 code units. Names are \<open>string\<close>s whose
  characters are the code units \<open>0\<close> to \<open>255\<close> (ASCII and Latin-1); a name with a
  code unit above \<open>255\<close> has no counterpart here. On these code units
  \<open>String.prototype.toLowerCase\<close> maps \<open>A\<close> to \<open>Z\<close> (65 to 90) and the Latin-1
  capital letters (192 to 222 without the multiplication sign 215) to the code unit 32
  above, and leaves every other code unit as it is. All the words of the blacklist are
  lower-case ASCII.
\<close>

definition lowerChar :: "char \<Rightarrow> char" where
  "lowerChar c =
     (let n = (of_char c :: nat) in
      if (65 \<le> n \<and> n \<le> 90) \<or> (192 \<le> n \<and> n \<le> 222 \<and> n \<noteq> 215) then char_of (n + 32)
      else c)"

definition toLowerCase :: "string \<Rightarrow> string" where
  "toLowerCase s = map lowerChar s"

text \<open>\<open>s.includes(w)\<close>: \<open>w\<close> occurs in \<open>s\<close> as a contiguous run of characters.\<close>

fun includes_str :: "string \<Rightarrow> string \<Rightarrow> bool" where
  "includes_str [] w = (w = [])"
| "includes_str (c # cs) w = (prefix w (c # cs) \<or> includes_str cs w)"

text \<open>
  The list that both filter callbacks declare (lines 99-113 and 161-175), with its
  repeated last entry.
\<close>

definition blacklistedWords :: "string list" where
  "blacklistedWords =
     [''remix'', ''mix'', ''edit'', ''radio'', ''- live'', '' ver.'', ''live-'',
      ''version'', ''tour'', ''live'', ''event'', ''concert'', ''tour'']"

text \<open>\<open>blacklistedWords.some((word) => trackName.includes(word))\<close> for the lower-cased name.\<close>

definition keywordExcluded :: "string \<Rightarrow> bool" where
  "keywordExcluded nm = list_ex (\<lambda>word. includes_str (toLowerCase nm) word) blacklistedWords"

subsection \<open>Tracks and the filter of \<open>getTracks\<close>\<close>

record singleTrack =
  name :: string
  albumName :: string
  uri :: string

text \<open>
  \<open>Array.prototype.filter\<close> with the three-argument callback \<open>(element, index, array)\<close>.
\<close>

definition filterIndexed :: "('a \<Rightarrow> nat \<Rightarrow> 'a list \<Rightarrow> bool) \<Rightarrow> 'a list \<Rightarrow> 'a list" where
  "filterIndexed p xs = map fst (filter (\<lambda>(x, i). p x i xs) (zip xs [0..<length xs]))"

text \<open>
  The loop \<open>for (let i = 0; i < index; i++) if (self[i].name === track.name) return false\<close>:
  \<open>isRepetition self track index i\<close> is True when the loop, started at \<open>i\<close>,
  leaves through that return.
\<close>

function isRepetition :: "singleTrack list \<Rightarrow> singleTrack \<Rightarrow> nat \<Rightarrow> nat \<Rightarrow> bool" where
  "isRepetition self track index i =
     (if i < index
      then (if name (self ! i) = name track then True
            else isRepetition self track index (Suc i))
      else False)"
  by pat_completeness auto
termination
  by (relation "measure (\<lambda>(self, track, index, i). index - i)") auto

declare isRepetition.simps [simp del]

text \<open>The callback of lines 157-188.\<close>

definition keepTrack :: "singleTrack \<Rightarrow> nat \<Rightarrow> singleTrack list \<Rightarrow> bool" where
  "keepTrack track index self =
     (let trackName = toLowerCase (name track) in
      if list_ex (\<lambda>word. includes_str trackName word) blacklistedWords then False
      else if isRepetition self track index 0 then False
      else True)"

definition filterTracks :: "singleTrack list \<Rightarrow> singleTrack list" where
  "filterTracks subTracks = filterIndexed keepTrack subTracks"

text \<open>
  The same filter as one pass that carries the set of names already met. It is used to
  reason about \<open>filterTracks\<close>, which is shown equal to \<open>firstSeen {}\<close>.
\<close>

fun firstSeen :: "string set \<Rightarrow> singleTrack list \<Rightarrow> singleTrack list" where
  "firstSeen seen [] = []"
| "firstSeen seen (t # ts) =
     (if \<not> keywordExcluded (name t) \<and> name t \<notin> seen
      then t # firstSeen (insert (name t) seen) ts
      else firstSeen (insert (name t) seen) ts)"

subsection \<open>The catalog client\<close>

text \<open>
  \<open>spotifyApi\<close> is imported from \<open>./spotifyApi\<close>; every method returns a promise. The
  client is a parameter of each function here: a method maps its arguments to \<open>Inr\<close> of
  the \<open>body\<close> of the response, or to \<open>Inl\<close> of the value the promise rejects with.
  Only the fields that \<open>spotify.ts\<close> reads are kept.
\<close>

record playlistOptions =
  description :: string
  public :: bool

text \<open>\<open>data.body\<close> of \<open>createPlaylist\<close>: \<open>uri\<close>, \<open>external_urls.spotify\<close>, \<open>name\<close>.\<close>

record playlistBody =
  body_uri :: string
  body_external_urls_spotify :: string
  body_name :: string

record searchOptions =
  limit :: nat
  offset :: nat

text \<open>An item of \<open>_data.body.artists.items\<close>.\<close>

record artistObject =
  artist_id :: string

text \<open>
  \<open>_data.body\<close> of \<open>searchArtists\<close>: \<open>artists\<close> is optional in the response type;
  when it is there, \<open>search_artists\<close> holds \<open>artists.items\<close>.
\<close>

record searchBody =
  search_artists :: "artistObject list option"

record albumOptions =
  albums_limit :: nat
  album_type :: string
  include_groups :: string

text \<open>An item of \<open>data.body.items\<close> of \<open>getArtistAlbums\<close>: \<open>name\<close> and \<open>id\<close>.\<close>

record albumItem =
  item_name :: string
  item_id :: string

text \<open>A track of \<open>item.tracks.items\<close>: \<open>name\<close> and \<open>uri\<close>.\<close>

record trackObject =
  track_name :: string
  track_uri :: string

text \<open>An album of \<open>data.body.albums\<close> of \<open>getAlbums\<close>: \<open>name\<close> and \<open>tracks.items\<close>.\<close>

record albumObject =
  album_name :: string
  album_tracks :: "trackObject list"

text \<open>An element of the \<open>tracks\<close> argument of \<open>removeTracksFromPlaylists\<close>: \<open>{ uri }\<close>.\<close>

record trackRef =
  ref_uri :: string

record ('e, 'r) spotifyApi =
  createPlaylist :: "string \<Rightarrow> playlistOptions \<Rightarrow> 'e + playlistBody"
  addTracksToPlaylist :: "string \<Rightarrow> string list \<Rightarrow> 'e + 'r"
  searchArtists :: "string \<Rightarrow> searchOptions \<Rightarrow> 'e + searchBody"
  getArtistAlbums :: "string option \<Rightarrow> albumOptions \<Rightarrow> 'e + albumItem list"
  getAlbums :: "string list \<Rightarrow> 'e + albumObject list"
  removeTracksFromPlaylist :: "string \<Rightarrow> trackRef list \<Rightarrow> 'e + 'r"

text \<open>
  What a \<open>catch (err)\<close> clause can hold (the caught value is bound as \<open>e\<close> below,
  \<open>err\<close> being a field of the error object): the value a client promise rejected with, or
  the \<open>TypeError\<close> of reading a property of \<open>undefined\<close>. \<open>ArtistNotFound\<close> is the
  error that the specification names; no function of \<open>spotify.ts\<close> creates it.
\<close>

datatype 'e thrown = Rejected 'e | TypeError | ArtistNotFound

text \<open>The object \<open>{ isError: true, err }\<close>.\<close>

record 'x errorObject =
  isError :: bool
  err :: 'x

subsection \<open>\<open>createPlayList\<close> and \<open>addTracksToPlayList\<close>\<close>

datatype playlistType = New | Old

text \<open>The type \<open>playlistDetails\<close> of \<open>../types\<close>: \<open>id\<close>, \<open>link\<close>, \<open>name\<close>.\<close>

record playlistDetails =
  details_id :: string
  details_link :: string
  details_name :: string

definition createPlayList ::
  "('e, 'r) spotifyApi \<Rightarrow> string \<Rightarrow> playlistType \<Rightarrow> 'e errorObject + playlistDetails" where
  "createPlayList api artists type =
     (let description =
        (if type = New then ''Listen To Something New From '' @ artists
         else if type = Old then ''Listen to songs from your favourite artists '' @ artists
         else [])
      in case createPlaylist api ''PlayList Generated By HearItFresh''
                \<lparr>description = description, public = True\<rparr> of
           Inr data \<Rightarrow>
             Inr \<lparr>details_id = body_uri data,
                  details_link = body_external_urls_spotify data,
                  details_name = body_name data\<rparr>
         | Inl e \<Rightarrow> Inl \<lparr>isError = True, err = e\<rparr>)"

text \<open>The result is \<open>_data\<close> (written \<open>data'\<close>), or the caught \<open>err\<close> returned as a value.\<close>

definition addTracksToPlayList ::
  "('e, 'r) spotifyApi \<Rightarrow> string list \<Rightarrow> string \<Rightarrow> 'e + 'r" where
  "addTracksToPlayList api tracks playListID =
     (case addTracksToPlaylist api playListID tracks of
        Inr data' \<Rightarrow> Inr data'
      | Inl e \<Rightarrow> Inl e)"

subsection \<open>\<open>getArtistsAlbums\<close>\<close>

text \<open>
  \<open>artistsLength\<close> is a count of artists, a natural number. On these the double
  division of line 83 and the division of reals have the same floor. \<open>100 / 0\<close> is
  \<open>Infinity\<close> in JavaScript, which \<open>Math.floor\<close> returns unchanged.
\<close>

definition maxAlbums :: "nat \<Rightarrow> enat" where
  "maxAlbums artistsLength =
     (if artistsLength = 20 then 5
      else if artistsLength = 0 then \<infinity>
      else enat (nat \<lfloor>100 / (real artistsLength * 2)\<rfloor>))"

text \<open>
  \<open>_data.body.artists?.items[0].id\<close>: \<open>undefined\<close> when \<open>artists\<close> is missing, a
  \<open>TypeError\<close> when \<open>items\<close> is empty (\<open>items[0]\<close> is \<open>undefined\<close>).
\<close>

definition firstArtistId :: "searchBody \<Rightarrow> 'e thrown + string option" where
  "firstArtistId body =
     (case search_artists body of
        None \<Rightarrow> Inr None
      | Some items \<Rightarrow> (case items of [] \<Rightarrow> Inl TypeError | a # _ \<Rightarrow> Inr (Some (artist_id a))))"

text \<open>The callback of lines 95-119.\<close>

definition keepAlbum :: "albumItem \<Rightarrow> bool" where
  "keepAlbum album =
     (let trackName = toLowerCase (item_name album) in
      if list_ex (\<lambda>word. includes_str trackName word) blacklistedWords then False
      else True)"

text \<open>
  \<open>randomSort\<close> stands for \<open>result.sort(() => Math.random() - 0.5)\<close>: the order that
  the engine's sort leaves the array in under the random comparator. \<open>slice(0, maxAlbums)\<close>
  is reached only when \<open>maxAlbums\<close> is finite.
\<close>

definition getArtistsAlbums ::
  "('e, 'r) spotifyApi \<Rightarrow> (albumItem list \<Rightarrow> albumItem list) \<Rightarrow> string \<Rightarrow> nat
     \<Rightarrow> 'e thrown + string list" where
  "getArtistsAlbums api randomSort artist artistsLength =
     (case searchArtists api artist \<lparr>limit = 1, offset = 0\<rparr> of
        Inl e \<Rightarrow> Inl (Rejected e)
      | Inr data' \<Rightarrow>
          (case firstArtistId data' of
             Inl e \<Rightarrow> Inl e
           | Inr artistId \<Rightarrow>
               (case getArtistAlbums api artistId
                       \<lparr>albums_limit = 10, album_type = ''album'', include_groups = ''album''\<rparr> of
                  Inl e \<Rightarrow> Inl (Rejected e)
                | Inr items \<Rightarrow>
                    (let result = filter keepAlbum items in
                     if maxAlbums artistsLength \<ge> enat (length result)
                     then Inr (map item_id result)
                     else Inr (map item_id
                                 (take (the_enat (maxAlbums artistsLength)) (randomSort result)))))))"

subsection \<open>\<open>getTracks\<close>\<close>

text \<open>The two nested \<open>forEach\<close> loops of lines 148-156.\<close>

definition collectTracks :: "albumObject list \<Rightarrow> singleTrack list" where
  "collectTracks albums =
     concat (map (\<lambda>item. map (\<lambda>track. \<lparr>name = track_name track, albumName = album_name item,
                                        uri = track_uri track\<rparr>) (album_tracks item)) albums)"

text \<open>
  The \<open>for ... of\<close> loop over the batches, with the array \<open>tracks\<close> as accumulator. A
  rejected \<open>getAlbums\<close> leaves the loop for the \<open>catch\<close> clause. \<open>subTracks.flat()\<close>
  is \<open>subTracks\<close>, as its elements are objects.
\<close>

fun getTracksLoop ::
  "('e, 'r) spotifyApi \<Rightarrow> string list list \<Rightarrow> singleTrack list list
     \<Rightarrow> 'e + singleTrack list list" where
  "getTracksLoop api [] tracks = Inr tracks"
| "getTracksLoop api (subArray # rest) tracks =
     (case getAlbums api subArray of
        Inl e \<Rightarrow> Inl e
      | Inr albums \<Rightarrow> getTracksLoop api rest (tracks @ [filterTracks (collectTracks albums)]))"

text \<open>
  \<open>convertToSubArray\<close> is imported from \<open>./utils\<close> and is a parameter here.
  \<open>tracks.flat()\<close> joins the batches.
\<close>

definition getTracks ::
  "('e, 'r) spotifyApi \<Rightarrow> (string list \<Rightarrow> string list list) \<Rightarrow> string list
     \<Rightarrow> 'e errorObject + singleTrack list" where
  "getTracks api convertToSubArray albums =
     (case getTracksLoop api (convertToSubArray albums) [] of
        Inr tracks \<Rightarrow> Inr (concat tracks)
      | Inl e \<Rightarrow> Inl \<lparr>isError = True, err = e\<rparr>)"

text \<open>
  Modelled from the spec: \<open>convertToSubArray\<close> of \<open>./utils\<close> is not among the sources.
  The specification's Batch Splitter cuts the sequence into contiguous chunks of at most
  the batch size, in order, the last one possibly shorter, and gives no chunk for the
  empty sequence; the batch size of the aggregator is 20.
\<close>

function convertToSubArray :: "'a list \<Rightarrow> 'a list list" where
  "convertToSubArray items =
     (if items = [] then [] else take 20 items # convertToSubArray (drop 20 items))"
  by pat_completeness auto
termination
  by (relation "measure length") auto

declare convertToSubArray.simps [simp del]

subsection \<open>\<open>removeTracksFromPlaylists\<close>\<close>

text \<open>
  The console is the list of the values passed to \<open>console.error\<close> so far; the function
  returns its boolean and the console after the call.
\<close>

definition removeTracksFromPlaylists ::
  "('e, 'r) spotifyApi \<Rightarrow> string \<Rightarrow> trackRef list \<Rightarrow> 'e list \<Rightarrow> bool \<times> 'e list" where
  "removeTracksFromPlaylists api playlistId tracks console =
     (case removeTracksFromPlaylist api playlistId tracks of
        Inr _ \<Rightarrow> (True, console)
      | Inl error \<Rightarrow> (False, console @ [error]))"

subsection \<open>Example catalog clients\<close>

text \<open>
  Clients for the concrete runs below. \<open>failingApi\<close> rejects every request;
  \<open>albumsApi\<close> finds one artist, who has four albums; \<open>noMatchApi\<close> answers every
  artist search with an empty list of items.
\<close>

definition failingApi :: "(string, unit) spotifyApi" where
  "failingApi =
     \<lparr>createPlaylist = (\<lambda>title options. Inl ''unavailable''),
      addTracksToPlaylist = (\<lambda>playlistId uris. Inl ''unavailable''),
      searchArtists = (\<lambda>artist options. Inl ''unavailable''),
      getArtistAlbums = (\<lambda>artistId options. Inl ''unavailable''),
      getAlbums = (\<lambda>ids. Inl ''unavailable''),
      removeTracksFromPlaylist = (\<lambda>playlistId tracks. Inl ''unavailable'')\<rparr>"

definition albumsApi :: "(string, unit) spotifyApi" where
  "albumsApi =
     failingApi
       \<lparr>searchArtists := (\<lambda>artist options. Inr \<lparr>search_artists = Some [\<lparr>artist_id = ''artist1''\<rparr>]\<rparr>),
        getArtistAlbums := (\<lambda>artistId options.
          if artistId = Some ''artist1''
          then Inr [\<lparr>item_name = ''Album (Remix)'', item_id = ''id1''\<rparr>,
                    \<lparr>item_name = ''Album'', item_id = ''id2''\<rparr>,
                    \<lparr>item_name = ''Album Live'', item_id = ''id3''\<rparr>,
                    \<lparr>item_name = ''B'', item_id = ''id4''\<rparr>]
          else Inl ''invalid id'')\<rparr>"

definition noMatchApi :: "(string, unit) spotifyApi" where
  "noMatchApi = failingApi \<lparr>searchArtists := (\<lambda>artist options. Inr \<lparr>search_artists = Some []\<rparr>)\<rparr>"

text \<open>
  \<open>lookupApi\<close> answers \<open>getAlbums\<close> only: every album id stands for an album named
  by the id, with the single track \<open>Song\<close>, and a batch that holds the id \<open>missing\<close> is
  rejected.
\<close>

definition lookupApi :: "(string, unit) spotifyApi" where
  "lookupApi =
     failingApi
       \<lparr>getAlbums := (\<lambda>ids.
          if ''missing'' \<in> set ids then Inl ''not found''
          else Inr (map (\<lambda>i. \<lparr>album_name = i,
                                 album_tracks = [\<lparr>track_name = ''Song'', track_uri = ''uri:'' @ i\<rparr>]\<rparr>) ids))\<rparr>"

text \<open>
  \<open>playlistApi\<close> creates a playlist only for the request that \<open>createPlayList\<close> is to
  make for the artists \<open>The Beatles, Queen\<close> in mode \<open>new\<close>, and accepts additions and
  removals only under the URI of that playlist.
\<close>

definition playlistApi :: "(string, unit) spotifyApi" where
  "playlistApi =
     failingApi
       \<lparr>createPlaylist := (\<lambda>title options.
          if title = ''PlayList Generated By HearItFresh'' \<and>
             options = \<lparr>description = ''Listen To Something New From The Beatles, Queen'',
                        public = True\<rparr>
          then Inr \<lparr>body_uri = ''spotify:playlist:p1'',
                    body_external_urls_spotify = ''https://open.spotify.com/playlist/p1'',
                    body_name = title\<rparr>
          else Inl ''unexpected request''),
        addTracksToPlaylist := (\<lambda>playlistId uris.
          if playlistId = ''spotify:playlist:p1'' then Inr () else Inl ''no such playlist''),
        removeTracksFromPlaylist := (\<lambda>playlistId tracks.
          if playlistId = ''spotify:playlist:p1'' then Inr () else Inl ''no such playlist'')\<rparr>"

section \<open>Properties\<close>

subsection \<open>The track filter\<close>

lemma isRepetition_iff:
  "isRepetition self track index i =
     (\<exists>j. i \<le> j \<and> j < index \<and> name (self ! j) = name track)"
proof (induction self track index i rule: isRepetition.induct)
  case (1 self track index i)
  show ?case
  proof (cases "i < index")
    case False
    then show ?thesis by (subst isRepetition.simps) auto
  next
    case True
    show ?thesis
    proof (cases "name (self ! i) = name track")
      case same: True
      with True show ?thesis by (subst isRepetition.simps) auto
    next
      case diff: False
      have "isRepetition self track index i = isRepetition self track index (Suc i)"
        using True diff by (subst isRepetition.simps) simp
      also have "\<dots> = (\<exists>j. Suc i \<le> j \<and> j < index \<and> name (self ! j) = name track)"
        using "1.IH" [OF True diff] .
      also have "\<dots> = (\<exists>j. i \<le> j \<and> j < index \<and> name (self ! j) = name track)"
        using diff by (metis Suc_leD Suc_leI le_neq_implies_less)
      finally show ?thesis .
    qed
  qed
qed

lemma keepTrack_iff:
  "keepTrack track index self =
     (\<not> keywordExcluded (name track) \<and> (\<forall>j<index. name (self ! j) \<noteq> name track))"
  by (auto simp: keepTrack_def keywordExcluded_def isRepetition_iff)

lemma keepTrack_prefix:
  "keepTrack track (length P) (P @ S) =
     (\<not> keywordExcluded (name track) \<and> name track \<notin> name ` set P)"
proof -
  have "(\<forall>j<length P. name ((P @ S) ! j) \<noteq> name track) = (name track \<notin> name ` set P)"
  proof
    assume a: "\<forall>j<length P. name ((P @ S) ! j) \<noteq> name track"
    show "name track \<notin> name ` set P"
    proof
      assume "name track \<in> name ` set P"
      then obtain j where "j < length P" "name (P ! j) = name track"
        by (auto simp: in_set_conv_nth)
      with a show False by (simp add: nth_append)
    qed
  next
    assume n: "name track \<notin> name ` set P"
    show "\<forall>j<length P. name ((P @ S) ! j) \<noteq> name track"
    proof (intro allI impI)
      fix j assume j: "j < length P"
      then have "name (P ! j) \<in> name ` set P" by simp
      with n have "name (P ! j) \<noteq> name track" by metis
      with j show "name ((P @ S) ! j) \<noteq> name track"
        by (simp add: nth_append)
    qed
  qed
  then show ?thesis by (simp add: keepTrack_iff)
qed

lemma filter_zip_firstSeen:
  "map fst (filter (\<lambda>(x, i). keepTrack x i (P @ S)) (zip S [length P..<length P + length S]))
     = firstSeen (name ` set P) S"
proof (induction S arbitrary: P)
  case Nil
  show ?case by simp
next
  case (Cons t S)
  have upt: "[length P..<length P + length (t # S)]
               = length P # [length (P @ [t])..<length (P @ [t]) + length S]"
    by (simp add: upt_rec)
  have rest: "map fst (filter (\<lambda>(x, i). keepTrack x i (P @ t # S))
                 (zip S [length (P @ [t])..<length (P @ [t]) + length S]))
              = firstSeen (name ` set (P @ [t])) S"
    using Cons.IH [of "P @ [t]"] by simp
  have img: "name ` set (P @ [t]) = insert (name t) (name ` set P)" by auto
  show ?case
    unfolding upt using rest keepTrack_prefix [of t P "t # S"]
    by (simp add: img del: upt_Suc)
qed

lemma filterTracks_firstSeen: "filterTracks S = firstSeen {} S"
  using filter_zip_firstSeen [of "[]" S] by (simp add: filterTracks_def filterIndexed_def)

lemma firstSeen_names: "name ` set (firstSeen seen S) \<inter> seen = {}"
  by (induction S arbitrary: seen) auto

lemma firstSeen_names_sub: "name ` set (firstSeen seen S) \<subseteq> name ` set S - seen"
  by (induction S arbitrary: seen) auto

lemma firstSeen_distinct: "distinct (map name (firstSeen seen S))"
proof (induction S arbitrary: seen)
  case Nil show ?case by simp
next
  case (Cons t S)
  have "name t \<notin> name ` set (firstSeen (insert (name t) seen) S)"
    using firstSeen_names [of "insert (name t) seen" S] by blast
  with Cons.IH show ?case by simp
qed

lemma firstSeen_subseq: "subseq (firstSeen seen S) S"
  by (induction S arbitrary: seen) auto

lemma firstSeen_not_excluded: "u \<in> set (firstSeen seen S) \<Longrightarrow> \<not> keywordExcluded (name u)"
  by (induction S arbitrary: seen) (auto split: if_splits)

lemma firstSeen_find:
  "\<not> keywordExcluded n \<Longrightarrow> n \<notin> seen \<Longrightarrow>
     find (\<lambda>u. name u = n) (firstSeen seen S) = find (\<lambda>u. name u = n) S"
  by (induction S arbitrary: seen) auto

lemma firstSeen_find_excluded:
  "keywordExcluded n \<Longrightarrow> find (\<lambda>u. name u = n) (firstSeen seen S) = None"
  by (induction S arbitrary: seen) auto

lemma filterTracks_not_excluded:
  "u \<in> set (filterTracks S) \<Longrightarrow> \<not> keywordExcluded (name u)"
  by (simp add: filterTracks_firstSeen firstSeen_not_excluded)

text \<open>
  C1: the names of the tracks that \<open>filterTracks\<close> returns are pairwise different under
  literal string equality; the result is a subsequence of the input, in the input's order;
  and for every name that the keyword test lets through, the track of that name in the
  result is the first track of that name in the input (a name that the keyword test
  rejects has no track in the result).
\<close>

theorem filterTracks_first_occurrence:
  "distinct (map name (filterTracks S)) \<and>
   subseq (filterTracks S) S \<and>
   (\<forall>n. find (\<lambda>u. name u = n) (filterTracks S) =
          (if keywordExcluded n then None else find (\<lambda>u. name u = n) S))"
  by (simp add: filterTracks_firstSeen firstSeen_distinct firstSeen_subseq
        firstSeen_find firstSeen_find_excluded)

theorem filterTracks_first_occurrence_witness:
  "distinct (map name (filterTracks
     [\<lparr>name = ''Song'', albumName = ''A'', uri = ''u1''\<rparr>,
      \<lparr>name = ''Song Live'', albumName = ''A'', uri = ''u2''\<rparr>,
      \<lparr>name = ''Song'', albumName = ''B'', uri = ''u3''\<rparr>,
      \<lparr>name = ''Other'', albumName = ''B'', uri = ''u4''\<rparr>])) \<and>
   subseq (filterTracks
     [\<lparr>name = ''Song'', albumName = ''A'', uri = ''u1''\<rparr>,
      \<lparr>name = ''Song Live'', albumName = ''A'', uri = ''u2''\<rparr>,
      \<lparr>name = ''Song'', albumName = ''B'', uri = ''u3''\<rparr>,
      \<lparr>name = ''Other'', albumName = ''B'', uri = ''u4''\<rparr>])
     [\<lparr>name = ''Song'', albumName = ''A'', uri = ''u1''\<rparr>,
      \<lparr>name = ''Song Live'', albumName = ''A'', uri = ''u2''\<rparr>,
      \<lparr>name = ''Song'', albumName = ''B'', uri = ''u3''\<rparr>,
      \<lparr>name = ''Other'', albumName = ''B'', uri = ''u4''\<rparr>] \<and>
   find (\<lambda>u. name u = ''Song'') (filterTracks
     [\<lparr>name = ''Song'', albumName = ''A'', uri = ''u1''\<rparr>,
      \<lparr>name = ''Song Live'', albumName = ''A'', uri = ''u2''\<rparr>,
      \<lparr>name = ''Song'', albumName = ''B'', uri = ''u3''\<rparr>,
      \<lparr>name = ''Other'', albumName = ''B'', uri = ''u4''\<rparr>])
     = Some \<lparr>name = ''Song'', albumName = ''A'', uri = ''u1''\<rparr> \<and>
   find (\<lambda>u. name u = ''Song Live'') (filterTracks
     [\<lparr>name = ''Song'', albumName = ''A'', uri = ''u1''\<rparr>,
      \<lparr>name = ''Song Live'', albumName = ''A'', uri = ''u2''\<rparr>,
      \<lparr>name = ''Song'', albumName = ''B'', uri = ''u3''\<rparr>,
      \<lparr>name = ''Other'', albumName = ''B'', uri = ''u4''\<rparr>])
     = None"
proof -
  have keep: "\<not> keywordExcluded ''Song''" by code_simp
  have drop: "keywordExcluded ''Song Live''" by code_simp
  show ?thesis
    using keep drop filterTracks_first_occurrence
      [of "[\<lparr>name = ''Song'', albumName = ''A'', uri = ''u1''\<rparr>,
            \<lparr>name = ''Song Live'', albumName = ''A'', uri = ''u2''\<rparr>,
            \<lparr>name = ''Song'', albumName = ''B'', uri = ''u3''\<rparr>,
            \<lparr>name = ''Other'', albumName = ''B'', uri = ''u4''\<rparr>]"]
    by simp
qed

subsection \<open>The album quota\<close>

lemma floor_quota: "nat \<lfloor>100 / (real n * 2)\<rfloor> = 100 div (n * 2)"
proof -
  have "(100::real) / (real n * 2) = real 100 / real (n * 2)" by simp
  then have "\<lfloor>100 / (real n * 2)\<rfloor> = int (100 div (n * 2))"
    by (simp only: floor_divide_of_nat_eq)
  then show ?thesis by simp
qed

text \<open>
  C2: for a count \<open>n > 0\<close> of artists the quota that \<open>getArtistsAlbums\<close> computes is 5
  when \<open>n = 20\<close> and the integer quotient of 100 by \<open>n * 2\<close> otherwise; it is 5 for
  \<open>n = 20\<close> and 10 for \<open>n = 5\<close>.
\<close>

theorem maxAlbums_quota:
  "(0 < n \<longrightarrow> maxAlbums n = enat (if n = 20 then 5 else 100 div (n * 2))) \<and>
   maxAlbums 20 = 5 \<and> maxAlbums 5 = 10"
proof -
  have "0 < n \<longrightarrow> maxAlbums n = enat (if n = 20 then 5 else 100 div (n * 2))"
    unfolding maxAlbums_def floor_quota by (simp add: numeral_eq_enat)
  moreover have "maxAlbums 20 = 5"
    by (simp add: maxAlbums_def)
  moreover have "maxAlbums 5 = 10"
    unfolding maxAlbums_def floor_quota by (simp add: numeral_eq_enat)
  ultimately show ?thesis by blast
qed

theorem maxAlbums_quota_witness:
  "(0::nat) < 7 \<and> maxAlbums 7 = 7"
  using maxAlbums_quota [of 7] by (simp add: numeral_eq_enat)

subsection \<open>The album selection\<close>

lemma keepAlbum_eq: "keepAlbum = (\<lambda>album. \<not> keywordExcluded (item_name album))"
  by (rule ext) (simp add: keepAlbum_def keywordExcluded_def)

lemma getArtistsAlbums_success:
  fixes api :: "('e, 'r) spotifyApi"
  assumes "searchArtists api artist \<lparr>limit = 1, offset = 0\<rparr> = Inr body"
    and "(firstArtistId body :: 'e thrown + string option) = Inr artistId"
    and "getArtistAlbums api artistId
           \<lparr>albums_limit = 10, album_type = ''album'', include_groups = ''album''\<rparr> = Inr items"
  shows "getArtistsAlbums api randomSort artist n =
           (if enat (length (filter keepAlbum items)) \<le> maxAlbums n
            then Inr (map item_id (filter keepAlbum items))
            else Inr (map item_id (take (the_enat (maxAlbums n))
                                      (randomSort (filter keepAlbum items)))))"
proof -
  from assms show ?thesis
    by (simp add: getArtistsAlbums_def Let_def)
qed

text \<open>
  C6: when the artist lookup and the album request succeed, \<open>getArtistsAlbums\<close> returns
  the ids of albums chosen among those whose lower-cased title contains no blacklisted word:
  all of them, in order, when their number is at most the quota, and exactly quota many of
  them otherwise (whatever permutation the random sort leaves); never more than the minimum
  of the quota and their number.
\<close>

theorem getArtistsAlbums_selection:
  fixes api :: "('e, 'r) spotifyApi"
  assumes "searchArtists api artist \<lparr>limit = 1, offset = 0\<rparr> = Inr body"
    and "(firstArtistId body :: 'e thrown + string option) = Inr artistId"
    and "getArtistAlbums api artistId
           \<lparr>albums_limit = 10, album_type = ''album'', include_groups = ''album''\<rparr> = Inr items"
    and "mset (randomSort (filter keepAlbum items)) = mset (filter keepAlbum items)"
  shows "\<exists>ids chosen.
           getArtistsAlbums api randomSort artist n = Inr ids \<and>
           ids = map item_id chosen \<and>
           mset chosen \<subseteq># mset (filter (\<lambda>album. \<not> keywordExcluded (item_name album)) items) \<and>
           (if enat (length (filter (\<lambda>album. \<not> keywordExcluded (item_name album)) items)) \<le> maxAlbums n
            then chosen = filter (\<lambda>album. \<not> keywordExcluded (item_name album)) items
            else enat (length ids) = maxAlbums n) \<and>
           enat (length ids) \<le> min (maxAlbums n)
              (enat (length (filter (\<lambda>album. \<not> keywordExcluded (item_name album)) items)))"
proof -
  let ?result = "filter keepAlbum items"
  have surv: "filter (\<lambda>album. \<not> keywordExcluded (item_name album)) items = ?result"
    by (simp add: keepAlbum_eq)
  have len: "length (randomSort ?result) = length ?result"
    using assms(4) by (metis size_mset)
  show ?thesis
  proof (cases "enat (length ?result) \<le> maxAlbums n")
    case True
    then have "getArtistsAlbums api randomSort artist n = Inr (map item_id ?result)"
      using getArtistsAlbums_success [OF assms(1-3)] by simp
    with True show ?thesis unfolding surv by simp
  next
    case False
    then obtain k where k: "maxAlbums n = enat k" and lt: "k < length ?result"
      by (cases "maxAlbums n") auto
    let ?chosen = "take k (randomSort ?result)"
    have res: "getArtistsAlbums api randomSort artist n = Inr (map item_id ?chosen)"
      using getArtistsAlbums_success [OF assms(1-3)] False k by simp
    have "mset ?chosen \<subseteq># mset (randomSort ?result)"
      by (metis append_take_drop_id mset_append mset_subset_eq_add_left)
    then have sub: "mset ?chosen \<subseteq># mset ?result" using assms(4) by simp
    have lenc: "length ?chosen = k" using lt len by simp
    show ?thesis
      unfolding surv using res sub lenc False k lt
      by (intro exI [of _ "map item_id ?chosen"] exI [of _ ?chosen]) simp
  qed
qed

theorem getArtistsAlbums_selection_witness:
  "getArtistsAlbums albumsApi rev ''Artist'' 20 = Inr [''id2'', ''id4''] \<and>
   getArtistsAlbums albumsApi rev ''Artist'' 30 = Inr [''id4'']"
proof -
  let ?items = "[\<lparr>item_name = ''Album (Remix)'', item_id = ''id1''\<rparr>,
                 \<lparr>item_name = ''Album'', item_id = ''id2''\<rparr>,
                 \<lparr>item_name = ''Album Live'', item_id = ''id3''\<rparr>,
                 \<lparr>item_name = ''B'', item_id = ''id4''\<rparr>]"
  let ?body = "\<lparr>search_artists = Some [\<lparr>artist_id = ''artist1''\<rparr>]\<rparr>"
  have h1: "searchArtists albumsApi ''Artist'' \<lparr>limit = 1, offset = 0\<rparr> = Inr ?body"
    by (simp add: albumsApi_def)
  have h2: "(firstArtistId ?body :: string thrown + string option) = Inr (Some ''artist1'')"
    by (simp add: firstArtistId_def)
  have h3: "getArtistAlbums albumsApi (Some ''artist1'')
              \<lparr>albums_limit = 10, album_type = ''album'', include_groups = ''album''\<rparr> = Inr ?items"
    by (simp add: albumsApi_def)
  have h4: "mset (rev (filter keepAlbum ?items)) = mset (filter keepAlbum ?items)"
    by simp
  have surv: "filter (\<lambda>album. \<not> keywordExcluded (item_name album)) ?items =
                [\<lparr>item_name = ''Album'', item_id = ''id2''\<rparr>, \<lparr>item_name = ''B'', item_id = ''id4''\<rparr>]"
    by code_simp
  have q20: "maxAlbums 20 = 5" by (simp add: maxAlbums_def)
  have q30: "maxAlbums 30 = 1" by code_simp
  have a: "getArtistsAlbums albumsApi rev ''Artist'' 20 = Inr [''id2'', ''id4'']"
    using getArtistsAlbums_selection [where randomSort = rev and n = 20, OF h1 h2 h3 h4]
    unfolding surv q20
    by (auto simp: numeral_eq_enat)
  have b: "getArtistsAlbums albumsApi rev ''Artist'' 30 = Inr [''id4'']"
    by code_simp
  from a b show ?thesis by simp
qed

text \<open>
  C8, as stated, fails: when the search answers with an empty list of items, the value
  returned is the caught \<open>TypeError\<close>, not an \<open>ArtistNotFound\<close> error.
\<close>

theorem getArtistsAlbums_no_match_counterexample:
  "getArtistsAlbums noMatchApi rev ''Nobody'' 20 = Inl TypeError \<and>
   getArtistsAlbums noMatchApi rev ''Nobody'' 20 \<noteq> Inl ArtistNotFound"
  by code_simp

lemma firstArtistId_not_ArtistNotFound: "firstArtistId body \<noteq> Inl ArtistNotFound"
  by (simp add: firstArtistId_def split: option.splits list.splits)

text \<open>
  C8, amended: when the artist search succeeds with an empty list of items,
  \<open>getArtistsAlbums\<close> returns, as a value, the \<open>TypeError\<close> caught from reading the
  \<open>id\<close> of the missing first item; on no path does it return \<open>ArtistNotFound\<close>.
\<close>

theorem getArtistsAlbums_no_match:
  "(searchArtists api artist \<lparr>limit = 1, offset = 0\<rparr> = Inr body \<and> search_artists body = Some []
      \<longrightarrow> getArtistsAlbums api randomSort artist n = Inl TypeError) \<and>
   getArtistsAlbums api randomSort artist n \<noteq> Inl ArtistNotFound"
proof -
  have "getArtistsAlbums api randomSort artist n \<noteq> Inl ArtistNotFound"
    using firstArtistId_not_ArtistNotFound
    by (auto simp: getArtistsAlbums_def Let_def split: sum.splits)
  then show ?thesis
    by (auto simp: getArtistsAlbums_def firstArtistId_def)
qed

theorem getArtistsAlbums_no_match_witness:
  "searchArtists noMatchApi ''Nobody'' \<lparr>limit = 1, offset = 0\<rparr> = Inr \<lparr>search_artists = Some []\<rparr> \<and>
   getArtistsAlbums noMatchApi rev ''Nobody'' 20 = Inl TypeError"
  using getArtistsAlbums_no_match [of noMatchApi "''Nobody''" "\<lparr>search_artists = Some []\<rparr>" rev 20]
  by (simp add: noMatchApi_def)

subsection \<open>The aggregation of \<open>getTracks\<close>\<close>

lemma getTracksLoop_success:
  "map (getAlbums api) subArrays = map Inr responses \<Longrightarrow>
   getTracksLoop api subArrays tracks =
     Inr (tracks @ map (\<lambda>albums. filterTracks (collectTracks albums)) responses)"
proof (induction subArrays arbitrary: tracks responses)
  case Nil
  then show ?case by simp
next
  case (Cons subArray rest)
  then obtain r rs where responses: "responses = r # rs"
    and r: "getAlbums api subArray = Inr r"
    and rs: "map (getAlbums api) rest = map Inr rs"
    by (cases responses) auto
  show ?case
    using Cons.IH [OF rs] r by (simp add: responses)
qed

lemma getTracksLoop_failure:
  "subArray \<in> set subArrays \<Longrightarrow> getAlbums api subArray = Inl e \<Longrightarrow>
   \<exists>b e'. b \<in> set subArrays \<and> getAlbums api b = Inl e' \<and>
           getTracksLoop api subArrays tracks = Inl e'"
proof (induction subArrays arbitrary: tracks)
  case Nil
  then show ?case by simp
next
  case (Cons first rest)
  show ?case
  proof (cases "getAlbums api first")
    case (Inl e1)
    then show ?thesis by auto
  next
    case (Inr albums)
    with Cons.prems have "subArray \<in> set rest" by auto
    from Cons.IH [OF this Cons.prems(2), of "tracks @ [filterTracks (collectTracks albums)]"]
    obtain b e' where "b \<in> set rest" "getAlbums api b = Inl e'"
      "getTracksLoop api rest (tracks @ [filterTracks (collectTracks albums)]) = Inl e'"
      by blast
    with Inr show ?thesis by (intro exI [of _ b] exI [of _ e']) simp
  qed
qed

lemma filterTracks_count:
  "length (filter (\<lambda>t. name t = n) (filterTracks S)) =
     (if \<not> keywordExcluded n \<and> n \<in> name ` set S then 1 else 0)"
proof -
  have "length (filter (\<lambda>t. name t = n) (firstSeen seen S)) =
          (if \<not> keywordExcluded n \<and> n \<notin> seen \<and> n \<in> name ` set S then 1 else 0)" for seen
  proof (induction S arbitrary: seen)
    case Nil
    show ?case by simp
  next
    case (Cons t S)
    show ?case
    proof (cases "name t = n")
      case True
      have "length (filter (\<lambda>t. name t = n) (firstSeen (insert n seen) S)) = 0"
        using Cons.IH [of "insert n seen"] by simp
      with True show ?thesis by auto
    next
      case False
      then have "n \<notin> insert (name t) seen \<longleftrightarrow> n \<notin> seen" by auto
      with False Cons.IH [of "insert (name t) seen"] show ?thesis by auto
    qed
  qed
  from this [of "{}"] show ?thesis by (simp add: filterTracks_firstSeen)
qed

lemma count_concat_batches:
  "\<not> keywordExcluded n \<Longrightarrow>
   length (filter (\<lambda>t. name t = n)
       (concat (map (\<lambda>albums. filterTracks (collectTracks albums)) responses))) =
   length (filter (\<lambda>albums. n \<in> name ` set (collectTracks albums)) responses)"
  by (induction responses) (simp_all add: filterTracks_count)

text \<open>
  C3: when every batch request succeeds, \<open>getTracks\<close> returns the filtered batches joined
  in batch order, each batch filtered on its own; so a name that the keyword test lets
  through occurs in the result once for every batch in which it occurs (it is not removed
  across batches).
\<close>

theorem getTracks_per_batch:
  assumes "map (getAlbums api) (split albums) = map Inr responses"
  shows "getTracks api split albums =
           Inr (concat (map (\<lambda>batch. filterTracks (collectTracks batch)) responses)) \<and>
         (\<forall>tracks n. getTracks api split albums = Inr tracks \<and> \<not> keywordExcluded n \<longrightarrow>
            length (filter (\<lambda>t. name t = n) tracks) =
            length (filter (\<lambda>batch. n \<in> name ` set (collectTracks batch)) responses))"
proof -
  have res: "getTracks api split albums =
               Inr (concat (map (\<lambda>batch. filterTracks (collectTracks batch)) responses))"
    using getTracksLoop_success [OF assms, of "[]"] by (simp add: getTracks_def)
  then show ?thesis by (auto simp: count_concat_batches)
qed

text \<open>
  C4: when the request of some batch is rejected, \<open>getTracks\<close> returns the error object
  \<open>{ isError: true, err }\<close> holding the rejection of a batch, and no track, whatever the
  batches before it gave.
\<close>

theorem getTracks_batch_failure:
  assumes "subArray \<in> set (split albums)" and "getAlbums api subArray = Inl e"
  shows "\<exists>b e'. b \<in> set (split albums) \<and> getAlbums api b = Inl e' \<and>
           getTracks api split albums = Inl \<lparr>isError = True, err = e'\<rparr>"
proof -
  from getTracksLoop_failure [OF assms, of "[]"]
  obtain b e' where "b \<in> set (split albums)" "getAlbums api b = Inl e'"
    "getTracksLoop api (split albums) [] = Inl e'" by blast
  then show ?thesis by (auto simp: getTracks_def)
qed


theorem getTracks_per_batch_witness:
  "getTracks lookupApi convertToSubArray (replicate 20 ''a'' @ [''b'']) =
     Inr [\<lparr>name = ''Song'', albumName = ''a'', uri = ''uri:a''\<rparr>,
          \<lparr>name = ''Song'', albumName = ''b'', uri = ''uri:b''\<rparr>] \<and>
   \<not> keywordExcluded ''Song'' \<and>
   length (filter (\<lambda>t. name t = ''Song'')
             [\<lparr>name = ''Song'', albumName = ''a'', uri = ''uri:a''\<rparr>,
              \<lparr>name = ''Song'', albumName = ''b'', uri = ''uri:b''\<rparr>]) = 2"
proof -
  let ?a = "\<lparr>album_name = ''a'', album_tracks = [\<lparr>track_name = ''Song'', track_uri = ''uri:a''\<rparr>]\<rparr>"
  let ?b = "\<lparr>album_name = ''b'', album_tracks = [\<lparr>track_name = ''Song'', track_uri = ''uri:b''\<rparr>]\<rparr>"
  have h: "map (getAlbums lookupApi) (convertToSubArray (replicate 20 ''a'' @ [''b''])) =
             map Inr [replicate 20 ?a, [?b]]"
    by code_simp
  have ev: "concat (map (\<lambda>batch. filterTracks (collectTracks batch)) [replicate 20 ?a, [?b]]) =
              [\<lparr>name = ''Song'', albumName = ''a'', uri = ''uri:a''\<rparr>,
               \<lparr>name = ''Song'', albumName = ''b'', uri = ''uri:b''\<rparr>]"
    by code_simp
  have ok: "\<not> keywordExcluded ''Song''" by code_simp
  show ?thesis
    using getTracks_per_batch
      [where api = lookupApi and split = convertToSubArray
         and albums = "replicate 20 ''a'' @ [''b'']", OF h] ok
    unfolding ev by simp
qed

theorem getTracks_batch_failure_witness:
  "replicate 20 ''a'' \<in> set (convertToSubArray (replicate 20 ''a'' @ [''missing''])) \<and>
   (\<exists>albums. getAlbums lookupApi (replicate 20 ''a'') = Inr albums) \<and>
   [''missing''] \<in> set (convertToSubArray (replicate 20 ''a'' @ [''missing''])) \<and>
   getAlbums lookupApi [''missing''] = Inl ''not found'' \<and>
   getTracks lookupApi convertToSubArray (replicate 20 ''a'' @ [''missing'']) =
     Inl \<lparr>isError = True, err = ''not found''\<rparr>"
proof -
  have split: "convertToSubArray (replicate 20 ''a'' @ [''missing'']) =
                 [replicate 20 ''a'', [''missing'']]"
    by code_simp
  have first: "\<exists>albums. getAlbums lookupApi (replicate 20 ''a'') = Inr albums"
    by (simp add: lookupApi_def)
  have h1: "[''missing''] \<in> set (convertToSubArray (replicate 20 ''a'' @ [''missing'']))"
    unfolding split by simp
  have h2: "getAlbums lookupApi [''missing''] = Inl ''not found''"
    by (simp add: lookupApi_def)
  have only: "getAlbums lookupApi b = Inl e' \<Longrightarrow> e' = ''not found''" for b e'
    by (simp add: lookupApi_def split: if_splits)
  from getTracks_batch_failure
    [where api = lookupApi and split = convertToSubArray
       and albums = "replicate 20 ''a'' @ [''missing'']", OF h1 h2]
  obtain b e' where "getAlbums lookupApi b = Inl e'"
    and "getTracks lookupApi convertToSubArray (replicate 20 ''a'' @ [''missing'']) =
           Inl \<lparr>isError = True, err = e'\<rparr>"
    by blast
  with only have "getTracks lookupApi convertToSubArray (replicate 20 ''a'' @ [''missing'']) =
           Inl \<lparr>isError = True, err = ''not found''\<rparr>"
    by blast
  with first h1 h2 show ?thesis unfolding split by simp
qed

lemma includes_str_sublist: "includes_str s w = sublist w s"
  by (induction s) (simp_all add: sublist_Cons_right)

lemma keywordExcluded_sublist:
  "keywordExcluded a = (\<exists>word \<in> set blacklistedWords. sublist word (toLowerCase a))"
  by (simp add: keywordExcluded_def list_ex_iff includes_str_sublist)

lemma filterTracks_pair:
  "filterTracks [t, u] =
     (if keywordExcluded (name t) then [] else [t]) @
     (if keywordExcluded (name u) \<or> name u = name t then [] else [u])"
  by (simp add: filterTracks_firstSeen)

subsection \<open>Case handling of the two tests\<close>

lemma filterIndexed_nth:
  "filterIndexed p xs = map (\<lambda>i. xs ! i) (filter (\<lambda>i. p (xs ! i) i xs) [0..<length xs])"
proof -
  have z: "zip xs [0..<length xs] = map (\<lambda>i. (xs ! i, i)) [0..<length xs]"
  proof (rule nth_equalityI)
    show "length (zip xs [0..<length xs]) = length (map (\<lambda>i. (xs ! i, i)) [0..<length xs])"
      by simp
  next
    fix i assume "i < length (zip xs [0..<length xs])"
    then have "i < length xs" by simp
    then show "zip xs [0..<length xs] ! i = map (\<lambda>i. (xs ! i, i)) [0..<length xs] ! i"
      by simp
  qed
  show ?thesis
    unfolding filterIndexed_def z by (simp add: filter_map comp_def)
qed

lemma filterTracks_single:
  "filterTracks [t] = (if keywordExcluded (name t) then [] else [t])"
  by (simp add: filterTracks_firstSeen)

text \<open>
  C5: \<open>filterTracks\<close> keeps exactly the tracks, in input order, whose lower-cased name
  contains no blacklisted word as a substring and whose name, compared as it is, is the
  name of no earlier track of the input. So the keyword test does not see case: of two
  tracks with the same lower-cased name, either both are rejected by it or neither is.
  The repetition test does see case: when a track survives alone, a second track whose name
  has the same lower-casing is dropped after it if the two names are equal and kept with it
  if they differ.
\<close>

theorem filter_case_asymmetry:
  "filterTracks S =
     map (\<lambda>i. S ! i)
       (filter (\<lambda>i. (\<forall>word \<in> set blacklistedWords. \<not> sublist word (toLowerCase (name (S ! i)))) \<and>
                     (\<forall>j<i. name (S ! j) \<noteq> name (S ! i)))
          [0..<length S]) \<and>
   (toLowerCase (name u) = toLowerCase (name t) \<longrightarrow>
      (filterTracks [u] = []) = (filterTracks [t] = [])) \<and>
   (filterTracks [t] = [t] \<and> toLowerCase (name u) = toLowerCase (name t) \<longrightarrow>
      filterTracks [t, u] = (if name u = name t then [t] else [t, u]))"
proof -
  have keep: "keepTrack (S ! i) i S =
                ((\<forall>word \<in> set blacklistedWords. \<not> sublist word (toLowerCase (name (S ! i)))) \<and>
                 (\<forall>j<i. name (S ! j) \<noteq> name (S ! i)))" for i
    by (simp add: keepTrack_iff keywordExcluded_sublist)
  have first: "filterTracks S =
     map (\<lambda>i. S ! i)
       (filter (\<lambda>i. (\<forall>word \<in> set blacklistedWords. \<not> sublist word (toLowerCase (name (S ! i)))) \<and>
                     (\<forall>j<i. name (S ! j) \<noteq> name (S ! i)))
          [0..<length S])"
    unfolding filterTracks_def filterIndexed_nth keep ..
  have second: "toLowerCase (name u) = toLowerCase (name t) \<longrightarrow>
      (filterTracks [u] = []) = (filterTracks [t] = [])"
    by (simp add: filterTracks_single keywordExcluded_def)
  have third: "filterTracks [t] = [t] \<and> toLowerCase (name u) = toLowerCase (name t) \<longrightarrow>
      filterTracks [t, u] = (if name u = name t then [t] else [t, u])"
    by (auto simp: filterTracks_single filterTracks_pair keywordExcluded_def split: if_splits)
  from first second third show ?thesis by (intro conjI)
qed


theorem filter_case_asymmetry_witness:
  "toLowerCase ''Summer REMIX'' = toLowerCase ''summer remix'' \<and>
   filterTracks [\<lparr>name = ''summer remix'', albumName = ''A'', uri = ''u0''\<rparr>] = [] \<and>
   filterTracks [\<lparr>name = ''Summer REMIX'', albumName = ''A'', uri = ''u0''\<rparr>] = [] \<and>
   filterTracks [\<lparr>name = ''Hello'', albumName = ''A'', uri = ''u1''\<rparr>] =
     [\<lparr>name = ''Hello'', albumName = ''A'', uri = ''u1''\<rparr>] \<and>
   toLowerCase ''hello'' = toLowerCase ''Hello'' \<and>
   filterTracks [\<lparr>name = ''Hello'', albumName = ''A'', uri = ''u1''\<rparr>,
                 \<lparr>name = ''hello'', albumName = ''A'', uri = ''u2''\<rparr>] =
     [\<lparr>name = ''Hello'', albumName = ''A'', uri = ''u1''\<rparr>,
      \<lparr>name = ''hello'', albumName = ''A'', uri = ''u2''\<rparr>] \<and>
   filterTracks [\<lparr>name = ''Hello'', albumName = ''A'', uri = ''u1''\<rparr>,
                 \<lparr>name = ''Hello'', albumName = ''B'', uri = ''u3''\<rparr>] =
     [\<lparr>name = ''Hello'', albumName = ''A'', uri = ''u1''\<rparr>]"
proof -
  let ?lower = "\<lparr>name = ''summer remix'', albumName = ''A'', uri = ''u0''\<rparr>"
  let ?upper = "\<lparr>name = ''Summer REMIX'', albumName = ''A'', uri = ''u0''\<rparr>"
  let ?t = "\<lparr>name = ''Hello'', albumName = ''A'', uri = ''u1''\<rparr>"
  let ?u = "\<lparr>name = ''hello'', albumName = ''A'', uri = ''u2''\<rparr>"
  let ?v = "\<lparr>name = ''Hello'', albumName = ''B'', uri = ''u3''\<rparr>"
  have low1: "toLowerCase ''Summer REMIX'' = toLowerCase ''summer remix''" by code_simp
  have gone: "filterTracks [?lower] = []" by code_simp
  have alone: "filterTracks [?t] = [?t]" by code_simp
  have low2: "toLowerCase ''hello'' = toLowerCase ''Hello''" by code_simp
  have "(filterTracks [?upper] = []) = (filterTracks [?lower] = [])"
    using filter_case_asymmetry [where u = ?upper and t = ?lower, THEN conjunct2, THEN conjunct1]
      low1
    by simp
  with gone have gone': "filterTracks [?upper] = []" by simp
  have "filterTracks [?t, ?u] = (if name ?u = name ?t then [?t] else [?t, ?u])"
    using filter_case_asymmetry [where t = ?t and u = ?u, THEN conjunct2, THEN conjunct2]
      alone low2
    by simp
  then have both: "filterTracks [?t, ?u] = [?t, ?u]" by simp
  have "filterTracks [?t, ?v] = (if name ?v = name ?t then [?t] else [?t, ?v])"
    using filter_case_asymmetry [where t = ?t and u = ?v, THEN conjunct2, THEN conjunct2]
      alone
    by simp
  then have one: "filterTracks [?t, ?v] = [?t]" by simp
  from low1 gone gone' alone low2 both one show ?thesis by (intro conjI)
qed

subsection \<open>Creating the playlist\<close>

text \<open>
  C7: in mode \<open>new\<close> \<open>createPlayList\<close> asks the client for a public playlist with the
  title \<open>PlayList Generated By HearItFresh\<close> and the description
  \<open>Listen To Something New From\<close> followed by the artists, in mode \<open>old\<close> with the
  description \<open>Listen to songs from your favourite artists\<close> followed by the artists;
  a rejected request gives the value \<open>{ isError: true, err }\<close>. The function is total:
  it returns a value for every client.
\<close>

theorem createPlayList_request:
  "createPlayList api artists New =
     (case createPlaylist api ''PlayList Generated By HearItFresh''
             \<lparr>description = ''Listen To Something New From '' @ artists, public = True\<rparr> of
        Inr data \<Rightarrow> Inr \<lparr>details_id = body_uri data,
                          details_link = body_external_urls_spotify data,
                          details_name = body_name data\<rparr>
      | Inl e \<Rightarrow> Inl \<lparr>isError = True, err = e\<rparr>) \<and>
   createPlayList api artists Old =
     (case createPlaylist api ''PlayList Generated By HearItFresh''
             \<lparr>description = ''Listen to songs from your favourite artists '' @ artists,
                public = True\<rparr> of
        Inr data \<Rightarrow> Inr \<lparr>details_id = body_uri data,
                          details_link = body_external_urls_spotify data,
                          details_name = body_name data\<rparr>
      | Inl e \<Rightarrow> Inl \<lparr>isError = True, err = e\<rparr>) \<and>
   ((\<forall>title options. \<exists>e. createPlaylist api title options = Inl e) \<longrightarrow>
      (\<exists>e. createPlayList api artists type = Inl \<lparr>isError = True, err = e\<rparr>))"
proof -
  have "(\<forall>title options. \<exists>e. createPlaylist api title options = Inl e) \<longrightarrow>
      (\<exists>e. createPlayList api artists type = Inl \<lparr>isError = True, err = e\<rparr>)"
  proof
    assume all: "\<forall>title options. \<exists>e. createPlaylist api title options = Inl e"
    show "\<exists>e. createPlayList api artists type = Inl \<lparr>isError = True, err = e\<rparr>"
    proof (cases type)
      case New
      from all obtain e where "createPlaylist api ''PlayList Generated By HearItFresh''
             \<lparr>description = ''Listen To Something New From '' @ artists, public = True\<rparr> = Inl e"
        by blast
      with New show ?thesis by (simp add: createPlayList_def)
    next
      case Old
      from all obtain e where "createPlaylist api ''PlayList Generated By HearItFresh''
             \<lparr>description = ''Listen to songs from your favourite artists '' @ artists,
                public = True\<rparr> = Inl e"
        by blast
      with Old show ?thesis by (simp add: createPlayList_def)
    qed
  qed
  then show ?thesis by (simp add: createPlayList_def)
qed

theorem createPlayList_request_witness:
  "createPlayList playlistApi ''The Beatles, Queen'' New =
     Inr \<lparr>details_id = ''spotify:playlist:p1'',
          details_link = ''https://open.spotify.com/playlist/p1'',
          details_name = ''PlayList Generated By HearItFresh''\<rparr> \<and>
   createPlayList playlistApi ''The Beatles, Queen'' Old =
     Inl \<lparr>isError = True, err = ''unexpected request''\<rparr> \<and>
   (\<forall>title options. \<exists>e. createPlaylist failingApi title options = Inl e) \<and>
   (\<exists>e. createPlayList failingApi ''The Beatles, Queen'' New = Inl \<lparr>isError = True, err = e\<rparr>)"
proof -
  have all: "\<forall>title options. \<exists>e. createPlaylist failingApi title options = Inl e"
    by (simp add: failingApi_def)
  have req: "createPlaylist playlistApi ''PlayList Generated By HearItFresh''
               \<lparr>description = ''Listen To Something New From '' @ ''The Beatles, Queen'',
                  public = True\<rparr> =
             Inr \<lparr>body_uri = ''spotify:playlist:p1'',
                  body_external_urls_spotify = ''https://open.spotify.com/playlist/p1'',
                  body_name = ''PlayList Generated By HearItFresh''\<rparr>"
    by (simp add: playlistApi_def)
  have req': "createPlaylist playlistApi ''PlayList Generated By HearItFresh''
               \<lparr>description = ''Listen to songs from your favourite artists '' @ ''The Beatles, Queen'',
                  public = True\<rparr> = Inl ''unexpected request''"
    by (simp add: playlistApi_def)
  note inst = createPlayList_request [of playlistApi "''The Beatles, Queen''" New]
  have a: "createPlayList playlistApi ''The Beatles, Queen'' New =
     Inr \<lparr>details_id = ''spotify:playlist:p1'',
          details_link = ''https://open.spotify.com/playlist/p1'',
          details_name = ''PlayList Generated By HearItFresh''\<rparr>"
    using inst [THEN conjunct1] unfolding req by simp
  have b: "createPlayList playlistApi ''The Beatles, Queen'' Old =
     Inl \<lparr>isError = True, err = ''unexpected request''\<rparr>"
    using inst [THEN conjunct2, THEN conjunct1] unfolding req' by simp
  have c: "\<exists>e. createPlayList failingApi ''The Beatles, Queen'' New = Inl \<lparr>isError = True, err = e\<rparr>"
    using createPlayList_request [of failingApi "''The Beatles, Queen''" New, THEN conjunct2, THEN conjunct2] all
    by (rule mp)
  from a b all c show ?thesis by (intro conjI)
qed

subsection \<open>Removing tracks\<close>

text \<open>
  C9: \<open>removeTracksFromPlaylists\<close> returns \<open>true\<close> and leaves the console as it is
  when the client's removal succeeds; when the removal is rejected it returns \<open>false\<close>
  and the rejection is the one new entry of the console.
\<close>

theorem removeTracksFromPlaylists_result:
  "(removeTracksFromPlaylist api playlistId tracks = Inr r \<longrightarrow>
      removeTracksFromPlaylists api playlistId tracks console = (True, console)) \<and>
   (removeTracksFromPlaylist api playlistId tracks = Inl e \<longrightarrow>
      removeTracksFromPlaylists api playlistId tracks console = (False, console @ [e]))"
  by (simp add: removeTracksFromPlaylists_def)

theorem removeTracksFromPlaylists_result_witness:
  "removeTracksFromPlaylist playlistApi ''spotify:playlist:p1'' [\<lparr>ref_uri = ''u1''\<rparr>] = Inr () \<and>
   removeTracksFromPlaylists playlistApi ''spotify:playlist:p1'' [\<lparr>ref_uri = ''u1''\<rparr>] [] = (True, []) \<and>
   removeTracksFromPlaylist playlistApi ''p2'' [\<lparr>ref_uri = ''u1''\<rparr>] = Inl ''no such playlist'' \<and>
   removeTracksFromPlaylists playlistApi ''p2'' [\<lparr>ref_uri = ''u1''\<rparr>] [] =
     (False, [''no such playlist''])"
proof -
  have ok: "removeTracksFromPlaylist playlistApi ''spotify:playlist:p1'' [\<lparr>ref_uri = ''u1''\<rparr>] = Inr ()"
    by (simp add: playlistApi_def failingApi_def)
  have bad: "removeTracksFromPlaylist playlistApi ''p2'' [\<lparr>ref_uri = ''u1''\<rparr>] = Inl ''no such playlist''"
    by (simp add: playlistApi_def failingApi_def)
  show ?thesis
    using ok bad
      removeTracksFromPlaylists_result
        [of playlistApi "''spotify:playlist:p1''" "[\<lparr>ref_uri = ''u1''\<rparr>]" "()" "[]"]
      removeTracksFromPlaylists_result
        [of playlistApi "''p2''" "[\<lparr>ref_uri = ''u1''\<rparr>]" _ "[]" "''no such playlist''"]
    by simp
qed

subsection \<open>The identifier of the created playlist\<close>

text \<open>
  C10: when \<open>createPlayList\<close> succeeds, the \<open>id\<close> of the details it returns is the
  \<open>uri\<close> of the created playlist and the \<open>link\<close> is its \<open>external_urls.spotify\<close>;
  \<open>addTracksToPlayList\<close> and \<open>removeTracksFromPlaylists\<close> called with that \<open>id\<close> hand
  the URI to the client.
\<close>

theorem createPlayList_id_is_uri:
  assumes "createPlayList api artists type = Inr details"
  shows "\<exists>options data.
           createPlaylist api ''PlayList Generated By HearItFresh'' options = Inr data \<and>
           details_id details = body_uri data \<and>
           details_link details = body_external_urls_spotify data \<and>
           details_name details = body_name data \<and>
           addTracksToPlayList api tracks (details_id details) =
             addTracksToPlaylist api (body_uri data) tracks \<and>
           fst (removeTracksFromPlaylists api (details_id details) refs console) =
             (\<not> isl (removeTracksFromPlaylist api (body_uri data) refs))"
proof -
  let ?options = "\<lparr>description =
        (if type = New then ''Listen To Something New From '' @ artists
         else if type = Old then ''Listen to songs from your favourite artists '' @ artists
         else []), public = True\<rparr>"
  from assms obtain data where
    data: "createPlaylist api ''PlayList Generated By HearItFresh'' ?options = Inr data"
    and details: "details = \<lparr>details_id = body_uri data,
                    details_link = body_external_urls_spotify data,
                    details_name = body_name data\<rparr>"
    by (auto simp: createPlayList_def Let_def split: sum.splits)
  have add: "addTracksToPlayList api tracks (details_id details) =
               addTracksToPlaylist api (body_uri data) tracks"
    by (simp add: addTracksToPlayList_def details split: sum.splits)
  have rm: "fst (removeTracksFromPlaylists api (details_id details) refs console) =
              (\<not> isl (removeTracksFromPlaylist api (body_uri data) refs))"
    by (simp add: removeTracksFromPlaylists_def details split: sum.splits)
  from data details add rm show ?thesis
    by (intro exI [of _ ?options] exI [of _ data]) simp
qed

theorem createPlayList_id_is_uri_witness:
  "createPlayList playlistApi ''The Beatles, Queen'' New =
     Inr \<lparr>details_id = ''spotify:playlist:p1'',
          details_link = ''https://open.spotify.com/playlist/p1'',
          details_name = ''PlayList Generated By HearItFresh''\<rparr> \<and>
   (\<exists>options.
      createPlaylist playlistApi ''PlayList Generated By HearItFresh'' options =
        Inr \<lparr>body_uri = ''spotify:playlist:p1'',
             body_external_urls_spotify = ''https://open.spotify.com/playlist/p1'',
             body_name = ''PlayList Generated By HearItFresh''\<rparr>) \<and>
   addTracksToPlayList playlistApi [''u1'']
     (details_id \<lparr>details_id = ''spotify:playlist:p1'',
          details_link = ''https://open.spotify.com/playlist/p1'',
          details_name = ''PlayList Generated By HearItFresh''\<rparr>) = Inr ()"
proof -
  let ?details = "\<lparr>details_id = ''spotify:playlist:p1'',
          details_link = ''https://open.spotify.com/playlist/p1'',
          details_name = ''PlayList Generated By HearItFresh''\<rparr>"
  have h: "createPlayList playlistApi ''The Beatles, Queen'' New = Inr ?details"
    by (simp add: createPlayList_def playlistApi_def failingApi_def)
  from createPlayList_id_is_uri [OF h, of "[''u1'']" "[]" "[]"]
  obtain options data where
    d: "createPlaylist playlistApi ''PlayList Generated By HearItFresh'' options = Inr data"
    and u: "details_id ?details = body_uri data"
    and l: "details_link ?details = body_external_urls_spotify data"
    and n: "details_name ?details = body_name data"
    and a: "addTracksToPlayList playlistApi [''u1''] (details_id ?details) =
              addTracksToPlaylist playlistApi (body_uri data) [''u1'']"
    by blast
  from u l n have data: "data = \<lparr>body_uri = ''spotify:playlist:p1'',
             body_external_urls_spotify = ''https://open.spotify.com/playlist/p1'',
             body_name = ''PlayList Generated By HearItFresh''\<rparr>"
    by (cases data) simp
  have "addTracksToPlaylist playlistApi (body_uri data) [''u1''] = Inr ()"
    unfolding data by (simp add: playlistApi_def failingApi_def)
  with a have "addTracksToPlayList playlistApi [''u1''] (details_id ?details) = Inr ()" by simp
  with h d data show ?thesis by blast
qed

end
